theory Spec2Isabelle
  imports Main
begin

section \<open>Blob-creation relay: the handler of function_app.py\<close>

text \<open>
  The module holds one function, \<open>file_drop_trigger(event, msg)\<close>. It reads the
  notification, builds a JSON text, and then, inside one \<open>try\<close> statement, builds a
  blob client, acquires a lease and writes the queue output; a \<open>finally\<close> clause
  releases the lease. Everything the function calls outside the module (the credential
  and blob client constructors, the lease calls, the output binding) is taken as an
  outcome supplied by a \<open>world\<close>; what the function does with those outcomes is
  modelled statement by statement.
\<close>

subsection \<open>Python values and exceptions\<close>

text \<open>
  A value obtained from parsed JSON. Python's \<open>None\<close> is \<open>JNull\<close>. A float is carried
  by the text that \<open>float.__repr__\<close> gives it, which is what \<open>json.dumps\<close> prints
  (or \<open>NaN\<close>, \<open>Infinity\<close>, \<open>-Infinity\<close>). A dict is an association list in insertion
  order. A \<open>str\<close> is a list of code points below 256.
\<close>

datatype json =
    JNull
  | JBool bool
  | JInt int
  | JFloat string
  | JStr string
  | JList "json list"
  | JObj "(string \<times> json) list"

text \<open>
  The exception classes that occur. \<open>ResourceExistsError\<close> and
  \<open>ResourceNotFoundError\<close> derive from \<open>HttpResponseError\<close>, and that one, the
  three builtin errors and \<open>OtherException\<close> (any further class of that kind) derive
  from \<open>Exception\<close>. \<open>KeyboardInterrupt\<close> and \<open>SystemExit\<close> derive from
  \<open>BaseException\<close> only. The string is \<open>str(exc)\<close>.
\<close>

datatype exc_class =
    ResourceExistsError
  | ResourceNotFoundError
  | HttpResponseError
  | NameError
  | AttributeError
  | IndexError
  | OtherException
  | KeyboardInterrupt
  | SystemExit

datatype exn = Exn exc_class string

definition derives_from_Exception :: "exc_class \<Rightarrow> bool" where
  "derives_from_Exception c =
     (case c of KeyboardInterrupt \<Rightarrow> False | SystemExit \<Rightarrow> False | _ \<Rightarrow> True)"

fun is_Exception :: "exn \<Rightarrow> bool" where
  "is_Exception (Exn c m) = derives_from_Exception c"

subsection \<open>\<open>str.split\<close> and indexing\<close>

text \<open>
  \<open>s.split(sep)\<close> for a one-character separator: a left-to-right scan that closes the
  current segment at every separator. \<open>cur\<close> holds the current segment reversed.
\<close>

fun split_scan :: "char \<Rightarrow> string \<Rightarrow> string \<Rightarrow> string list" where
  "split_scan sep cur [] = [rev cur]"
| "split_scan sep cur (c # cs) =
     (if c = sep then rev cur # split_scan sep [] cs else split_scan sep (c # cur) cs)"

definition split :: "string \<Rightarrow> char \<Rightarrow> string list" where
  "split s sep = split_scan sep [] s"

text \<open>\<open>xs[i]\<close>: a negative index counts from the end; out of range raises.\<close>

definition py_getitem :: "'a list \<Rightarrow> int \<Rightarrow> exn + 'a" where
  "py_getitem xs i =
     (let j = (if i < 0 then i + int (length xs) else i)
      in if j < 0 \<or> int (length xs) \<le> j
         then Inl (Exn IndexError ''list index out of range'')
         else Inr (xs ! nat j))"

subsection \<open>\<open>json.dumps\<close>\<close>

definition hex_digit :: "nat \<Rightarrow> char" where
  "hex_digit d = (if d < 10 then char_of (48 + d) else char_of (87 + d))"

fun show_nat :: "nat \<Rightarrow> string" where
  "show_nat n =
     (if n < 10 then [hex_digit n] else show_nat (n div 10) @ [hex_digit (n mod 10)])"

declare show_nat.simps [simp del]

definition show_int :: "int \<Rightarrow> string" where
  "show_int i = (if i < 0 then CHR ''-'' # show_nat (nat (- i)) else show_nat (nat i))"

text \<open>
  \<open>py_encode_basestring_ascii\<close>: every character outside the range from space to tilde,
  and the backslash and the double quote, is replaced; the short escapes first, then
  \<open>\u00xx\<close>.
\<close>

definition escape_char :: "char \<Rightarrow> string" where
  "escape_char c =
     (let n = (of_char c :: nat) in
      if c = CHR 0x5C then [CHR 0x5C, CHR 0x5C]
      else if c = CHR 0x22 then [CHR 0x5C, CHR 0x22]
      else if 32 \<le> n \<and> n \<le> 126 then [c]
      else if n = 8 then [CHR 0x5C, CHR ''b'']
      else if n = 12 then [CHR 0x5C, CHR ''f'']
      else if n = 10 then [CHR 0x5C, CHR ''n'']
      else if n = 13 then [CHR 0x5C, CHR ''r'']
      else if n = 9 then [CHR 0x5C, CHR ''t'']
      else [CHR 0x5C, CHR ''u'', CHR ''0'', CHR ''0'', hex_digit (n div 16), hex_digit (n mod 16)])"

definition py_encode_basestring_ascii :: "string \<Rightarrow> string" where
  "py_encode_basestring_ascii s = CHR 0x22 # concat (map escape_char s) @ [CHR 0x22]"

fun join :: "string \<Rightarrow> string list \<Rightarrow> string" where
  "join sep [] = []"
| "join sep [x] = x"
| "join sep (x # y # ys) = x @ sep @ join sep (y # ys)"

text \<open>
  \<open>json.dumps(v)\<close> with the default arguments: separators \<open>", "\<close> and \<open>": "\<close>,
  \<open>ensure_ascii=True\<close>, keys in insertion order.
\<close>

fun dumps :: "json \<Rightarrow> string" where
  "dumps JNull = ''null''"
| "dumps (JBool b) = (if b then ''true'' else ''false'')"
| "dumps (JInt i) = show_int i"
| "dumps (JFloat r) = r"
| "dumps (JStr s) = py_encode_basestring_ascii s"
| "dumps (JList xs) = ''['' @ join '', '' (map dumps xs) @ '']''"
| "dumps (JObj kvs) =
     ''{'' @ join '', '' (map (\<lambda>(k, v). py_encode_basestring_ascii k @ '': '' @ dumps v) kvs)
       @ ''}''"

subsection \<open>\<open>dict.get\<close>\<close>

definition type_name :: "json \<Rightarrow> string" where
  "type_name v =
     (case v of JNull \<Rightarrow> ''NoneType'' | JBool _ \<Rightarrow> ''bool'' | JInt _ \<Rightarrow> ''int''
      | JFloat _ \<Rightarrow> ''float'' | JStr _ \<Rightarrow> ''str'' | JList _ \<Rightarrow> ''list'' | JObj _ \<Rightarrow> ''dict'')"

text \<open>
  \<open>d.get(k)\<close>: the value, or \<open>None\<close> for a missing key. Only a dict has the method;
  on any other value the attribute lookup raises \<open>AttributeError\<close>.
\<close>

definition dict_get :: "(string \<times> json) list \<Rightarrow> string \<Rightarrow> json" where
  "dict_get kvs k = (case map_of kvs k of None \<Rightarrow> JNull | Some v \<Rightarrow> v)"

definition get :: "json \<Rightarrow> string \<Rightarrow> exn + json" where
  "get d k =
     (case d of
        JObj kvs \<Rightarrow> Inr (dict_get kvs k)
      | _ \<Rightarrow> Inl (Exn AttributeError
                 (CHR 0x27 # type_name d @ CHR 0x27 # '' object has no attribute 'get'' @ [CHR 0x27])))"

subsection \<open>The notification and the outside world\<close>

text \<open>
  \<open>func.EventGridEvent\<close>: the properties the handler reads are declared \<open>str\<close>
  and are strings here; \<open>get_json()\<close> returns the event's data as it was parsed,
  whatever JSON value that is.
\<close>

record event =
  event_id :: string
  subject :: string
  topic :: string
  event_type :: string
  data :: json

definition get_json :: "event \<Rightarrow> json" where
  "get_json ev = data ev"

text \<open>
  What the calls that leave the module do in one invocation; \<open>None\<close> is a normal
  return, \<open>Some e\<close> is the exception raised.
  \<^item> \<open>underscore_bound\<close>: line 67 reads the name \<open>_\<close>. The function has no such local
    and the module binds no such global, so Python looks in \<open>builtins\<close>; the lookup
    raises \<open>NameError\<close> unless the interpreter has put the name there.
  \<^item> \<open>credential\<close>: \<open>DefaultAzureCredential(_)\<close>.
  \<^item> \<open>from_blob_url\<close>: \<open>BlobClient.from_blob_url(blob_url=..., credential=...)\<close>.
  \<^item> \<open>acquire_lease\<close>: \<open>blob_client.acquire_lease()\<close>.
  \<^item> \<open>msg_set\<close>: \<open>msg.set(text)\<close>.
  \<^item> \<open>release\<close>: \<open>lease.release()\<close>.
\<close>

record world =
  underscore_bound :: bool
  credential :: "exn option"
  from_blob_url :: "json \<Rightarrow> exn option"
  acquire_lease :: "exn option"
  msg_set :: "string \<Rightarrow> exn option"
  release :: "exn option"

text \<open>
  What an invocation does to the outside, in order: the lease it obtains, the text it
  puts in the queue output, the release call (returned or raised), the logging calls
  (level, format string, argument).
\<close>

datatype level = INFO | ERROR

datatype effect =
    LeaseAcquired
  | QueueSet string
  | LeaseReleased
  | ReleaseRaised exn
  | Log level string json

text \<open>The lease handle; an object without \<open>__bool__\<close> or \<open>__len__\<close>, so it is truthy.\<close>

datatype lease_client = BlobLeaseClient

subsection \<open>Lines 46 to 62: parsing and building the text\<close>

record parsed =
  blob_name :: string
  blob_url :: json
  relay_dict :: "(string \<times> json) list"
  result :: string

text \<open>The dict literal of lines 50 to 61, keys as the source spells them.\<close>

definition relay_fields ::
  "event \<Rightarrow> string \<Rightarrow> json \<Rightarrow> json \<Rightarrow> json \<Rightarrow> json \<Rightarrow> (string \<times> json) list" where
  "relay_fields ev bname burl btype ctype clen =
     [(''id'', JStr (event_id ev)),
      (''source'', JStr ''file''),
      (''blob_name'', JStr bname),
      (''blob_url'', burl),
      (''blob_type'', btype),
      (''content_type'', ctype),
      (''content_length'', clen),
      (''topic'', JStr (topic ev)),
      (''subkect'', JStr (subject ev)),
      (''event_type'', JStr (event_type ev))]"

text \<open>
  These statements stand before the \<open>try\<close>: an exception raised here leaves the
  function.
\<close>

definition build_result :: "event \<Rightarrow> exn + parsed" where
  "build_result ev =
     (let event_data = get_json ev in
      case py_getitem (split (subject ev) CHR ''/'') (- 1) of
        Inl e \<Rightarrow> Inl e
      | Inr bname \<Rightarrow>
      (case get event_data ''url'' of
        Inl e \<Rightarrow> Inl e
      | Inr burl \<Rightarrow>
      (case get event_data ''blobType'' of
        Inl e \<Rightarrow> Inl e
      | Inr btype \<Rightarrow>
      (case get event_data ''contentType'' of
        Inl e \<Rightarrow> Inl e
      | Inr ctype \<Rightarrow>
      (case get event_data ''contentLength'' of
        Inl e \<Rightarrow> Inl e
      | Inr clen \<Rightarrow>
          (let d = relay_fields ev bname burl btype ctype clen in
           Inr \<lparr>blob_name = bname, blob_url = burl, relay_dict = d,
                result = dumps (JObj d)\<rparr>))))))"

subsection \<open>Lines 64 to 82: the guarded block, its handlers and the cleanup\<close>

text \<open>
  The body of the \<open>try\<close>. It returns the effects so far, the value of the variable
  \<open>lease\<close> (\<open>None\<close> until \<open>acquire_lease\<close> has returned) and the exception that ended
  the body, if any. The arguments of \<open>from_blob_url\<close> are evaluated before the call, so
  the name \<open>_\<close> is read and the credential is built first. The text handed to
  \<open>msg.set\<close> is \<open>json.dumps(result)\<close>, where \<open>result\<close> is already a \<open>str\<close>.
\<close>

definition try_body :: "world \<Rightarrow> parsed \<Rightarrow> effect list \<times> lease_client option \<times> exn option" where
  "try_body w p =
     (if \<not> underscore_bound w
      then ([], None, Some (Exn NameError ''name '_' is not defined''))
      else case credential w of
        Some e \<Rightarrow> ([], None, Some e)
      | None \<Rightarrow>
      (case from_blob_url w (blob_url p) of
        Some e \<Rightarrow> ([], None, Some e)
      | None \<Rightarrow>
      (case acquire_lease w of
        Some e \<Rightarrow> ([], None, Some e)
      | None \<Rightarrow>
      (let text = dumps (JStr (result p)) in
       case msg_set w text of
        Some e \<Rightarrow> ([LeaseAcquired], Some BlobLeaseClient, Some e)
      | None \<Rightarrow> ([LeaseAcquired, QueueSet text], Some BlobLeaseClient, None)))))"

text \<open>
  The \<open>except\<close> clauses, tried in the order written: \<open>ResourceExistsError\<close>,
  \<open>ResourceNotFoundError\<close>, \<open>Exception\<close>. A clause that matches makes one logging
  call, which returns; \<open>logging\<close> keeps the format string and its argument apart. An
  exception that derives from none of the three matches no clause and stays pending:
  the second component.
\<close>

definition except_clauses :: "parsed \<Rightarrow> exn \<Rightarrow> effect list \<times> exn option" where
  "except_clauses p exc =
     (case exc of Exn c m \<Rightarrow>
        if c = ResourceExistsError
        then ([Log INFO
                 ''Another process is currently leasing the blob %s. Exiting function.....''
                 (JStr (blob_name p))], None)
        else if c = ResourceNotFoundError
        then ([Log ERROR ''Blob not found: %s. Processing halted'' (blob_url p)], None)
        else if derives_from_Exception c
        then ([Log ERROR ''Unexpected error occurred: %s'' (JStr m)], None)
        else ([], Some exc))"

text \<open>
  The \<open>finally\<close> clause: \<open>if lease and lease is not None: lease.release()\<close>. No
  handler surrounds it, so what \<open>release\<close> raises leaves the function.
\<close>

definition finally_clause :: "world \<Rightarrow> lease_client option \<Rightarrow> effect list \<times> (exn + unit)" where
  "finally_clause w lease =
     (case lease of
        None \<Rightarrow> ([], Inr ())
      | Some l \<Rightarrow>
          (case release w of
             None \<Rightarrow> ([LeaseReleased], Inr ())
           | Some e \<Rightarrow> ([ReleaseRaised e], Inl e)))"

text \<open>
  The handler: the effects of the invocation, and \<open>Inr ()\<close> for a normal return or
  \<open>Inl e\<close> for the exception that reaches the caller. The \<open>finally\<close> clause runs
  on every path out of the \<open>try\<close> statement; what it raises replaces a pending
  exception, and a pending exception is raised again when it returns.
\<close>

definition file_drop_trigger :: "world \<Rightarrow> event \<Rightarrow> effect list \<times> (exn + unit)" where
  "file_drop_trigger w ev =
     (case build_result ev of
        Inl e \<Rightarrow> ([], Inl e)
      | Inr p \<Rightarrow>
          (case try_body w p of (effs, lease, raised) \<Rightarrow>
             (case (case raised of None \<Rightarrow> ([], None) | Some exc \<Rightarrow> except_clauses p exc) of
                (handled, pending) \<Rightarrow>
                  (case finally_clause w lease of (cleanup, outcome) \<Rightarrow>
                     (effs @ handled @ cleanup,
                      case outcome of
                        Inl e \<Rightarrow> Inl e
                      | Inr u \<Rightarrow> (case pending of None \<Rightarrow> Inr () | Some e \<Rightarrow> Inl e))))))"

subsection \<open>Reading an invocation\<close>

definition messages :: "effect list \<Rightarrow> string list" where
  "messages effs = concat (map (\<lambda>x. case x of QueueSet m \<Rightarrow> [m] | _ \<Rightarrow> []) effs)"

text \<open>Whether the invocation still holds a lease after these effects.\<close>

fun lease_held :: "bool \<Rightarrow> effect list \<Rightarrow> bool" where
  "lease_held h [] = h"
| "lease_held h (LeaseAcquired # xs) = lease_held True xs"
| "lease_held h (LeaseReleased # xs) = lease_held False xs"
| "lease_held h (x # xs) = lease_held h xs"

subsection \<open>Conditions on an invocation\<close>

text \<open>
  The last segment of a path, said directly: what follows the last \<open>/\<close>, or the whole
  string when there is none.
\<close>

definition last_path_segment :: "string \<Rightarrow> string" where
  "last_path_segment s = rev (takeWhile (\<lambda>c. c \<noteq> CHR ''/'') (rev s))"

text \<open>
  Line 69 is reached and \<open>acquire_lease()\<close> returns a lease, respectively raises
  \<open>e\<close>.
\<close>

definition acquisition_succeeds :: "world \<Rightarrow> event \<Rightarrow> bool" where
  "acquisition_succeeds w ev =
     (case build_result ev of
        Inl e \<Rightarrow> False
      | Inr p \<Rightarrow> underscore_bound w \<and> credential w = None
                \<and> from_blob_url w (blob_url p) = None \<and> acquire_lease w = None)"

definition acquisition_raises :: "world \<Rightarrow> event \<Rightarrow> exn \<Rightarrow> bool" where
  "acquisition_raises w ev e =
     (case build_result ev of
        Inl e' \<Rightarrow> False
      | Inr p \<Rightarrow> underscore_bound w \<and> credential w = None
                \<and> from_blob_url w (blob_url p) = None \<and> acquire_lease w = Some e)"

text \<open>The exception that ends the body of the \<open>try\<close>, if one does.\<close>

definition raised_in_try :: "world \<Rightarrow> event \<Rightarrow> exn option" where
  "raised_in_try w ev =
     (case build_result ev of Inl e \<Rightarrow> None | Inr p \<Rightarrow> snd (snd (try_body w p)))"

text \<open>
  What is left of an exception raised in the \<open>try\<close> once the \<open>except\<close> clauses
  have been tried, as the outcome of the handler when the cleanup returns.
\<close>

definition after_except :: "exn option \<Rightarrow> exn + unit" where
  "after_except raised =
     (case raised of
        None \<Rightarrow> Inr ()
      | Some exc \<Rightarrow> if is_Exception exc then Inr () else Inl exc)"

text \<open>The argument of \<open>msg.set\<close> on line 70, when the lines before the \<open>try\<close> return.\<close>

definition queue_text :: "event \<Rightarrow> string" where
  "queue_text ev =
     (case build_result ev of Inl e \<Rightarrow> [] | Inr p \<Rightarrow> dumps (JStr (result p)))"

subsection \<open>Concrete notifications and worlds\<close>

definition example_data :: "(string \<times> json) list" where
  "example_data =
     [(''url'', JStr ''https://acct.blob.core.windows.net/uploads/report-2024.csv''),
      (''blobType'', JStr ''BlockBlob''),
      (''contentType'', JStr ''text/csv''),
      (''contentLength'', JInt 1024)]"

definition example_event :: event where
  "example_event =
     \<lparr>event_id = ''e-1'',
      subject = ''/blobServices/default/containers/uploads/blobs/report-2024.csv'',
      topic = ''uploads-topic'',
      event_type = ''Microsoft.Storage.BlobCreated'',
      data = JObj example_data\<rparr>"

text \<open>The same notification without \<open>contentLength\<close>.\<close>

definition event_no_length :: event where
  "event_no_length = example_event\<lparr>data := JObj (take 3 example_data)\<rparr>"

text \<open>Notifications whose data is not an object.\<close>

definition null_data_event :: event where
  "null_data_event = example_event\<lparr>data := JNull\<rparr>"

definition list_data_event :: event where
  "list_data_event = example_event\<lparr>data := JList [JInt 1]\<rparr>"

text \<open>A subject that ends with the separator.\<close>

definition folder_event :: event where
  "folder_event = example_event\<lparr>subject := ''/containers/uploads/blobs/''\<rparr>"

text \<open>Every outside call returns, and the name \<open>_\<close> resolves.\<close>

definition ok_world :: world where
  "ok_world =
     \<lparr>underscore_bound = True, credential = None, from_blob_url = (\<lambda>u. None),
      acquire_lease = None, msg_set = (\<lambda>t. None), release = None\<rparr>"

text \<open>The module run as it stands: nothing binds \<open>_\<close>.\<close>

definition shipped_world :: world where
  "shipped_world = ok_world\<lparr>underscore_bound := False\<rparr>"

definition conflict_world :: world where
  "conflict_world =
     ok_world\<lparr>acquire_lease := Some (Exn ResourceExistsError ''LeaseAlreadyPresent'')\<rparr>"

definition unreachable_world :: world where
  "unreachable_world =
     ok_world\<lparr>acquire_lease := Some (Exn HttpResponseError ''connection reset'')\<rparr>"

text \<open>The process is interrupted while the lease is being acquired.\<close>

definition interrupted_world :: world where
  "interrupted_world =
     ok_world\<lparr>acquire_lease := Some (Exn KeyboardInterrupt [])\<rparr>"

definition emission_fails_world :: world where
  "emission_fails_world =
     ok_world\<lparr>msg_set := (\<lambda>t. Some (Exn OtherException ''output binding closed''))\<rparr>"

definition release_fails_world :: world where
  "release_fails_world =
     ok_world\<lparr>release := Some (Exn HttpResponseError ''LeaseIdMismatch'')\<rparr>"

text \<open>A payload object with no field at all.\<close>

definition empty_payload_event :: event where
  "empty_payload_event = example_event\<lparr>data := JObj []\<rparr>"

text \<open>The dict that lines 50 to 61 build for \<open>example_event\<close>.\<close>

definition example_fields :: "(string \<times> json) list" where
  "example_fields =
     [(''id'', JStr ''e-1''),
      (''source'', JStr ''file''),
      (''blob_name'', JStr ''report-2024.csv''),
      (''blob_url'', JStr ''https://acct.blob.core.windows.net/uploads/report-2024.csv''),
      (''blob_type'', JStr ''BlockBlob''),
      (''content_type'', JStr ''text/csv''),
      (''content_length'', JInt 1024),
      (''topic'', JStr ''uploads-topic''),
      (''subkect'', JStr ''/blobServices/default/containers/uploads/blobs/report-2024.csv''),
      (''event_type'', JStr ''Microsoft.Storage.BlobCreated'')]"

section \<open>Properties\<close>

subsection \<open>The blob name\<close>

lemma split_scan_nonempty: "split_scan sep cur s \<noteq> []"
  by (induction s arbitrary: cur) auto

lemma last_split_scan:
  "last (split_scan sep cur s) =
     (if sep \<in> set s then rev (takeWhile (\<lambda>c. c \<noteq> sep) (rev s)) else rev cur @ s)"
proof (induction s arbitrary: cur)
  case Nil
  then show ?case by simp
next
  case (Cons c cs)
  show ?case
  proof (cases "c = sep")
    case True
    then show ?thesis
      using Cons.IH [of "[]"] split_scan_nonempty [of sep "[]" cs]
      by (auto simp: takeWhile_append)
  next
    case False
    then show ?thesis
      using Cons.IH [of "c # cur"]
      by (auto simp: takeWhile_append)
  qed
qed

lemma py_getitem_last: "xs \<noteq> [] \<Longrightarrow> py_getitem xs (- 1) = Inr (last xs)"
  by (cases xs rule: rev_cases) (auto simp: py_getitem_def Let_def nth_append)

lemma blob_name_total:
  "py_getitem (split s CHR ''/'') (- 1) = Inr (last_path_segment s)"
proof -
  have ne: "split s CHR ''/'' \<noteq> []"
    by (simp add: split_def split_scan_nonempty)
  have "last (split s CHR ''/'') = last_path_segment s"
  proof (cases "CHR ''/'' \<in> set s")
    case True
    then show ?thesis
      by (simp add: split_def last_path_segment_def last_split_scan)
  next
    case False
    then have tw: "takeWhile (\<lambda>c. c \<noteq> CHR ''/'') (rev s) = rev s"
      by (auto simp: takeWhile_eq_all_conv)
    show ?thesis
      unfolding split_def last_path_segment_def last_split_scan
      using False by (simp add: tw)
  qed
  with py_getitem_last [OF ne] show ?thesis by simp
qed

lemma last_path_segment_empty:
  "s = [] \<or> last s = CHR ''/'' \<Longrightarrow> last_path_segment s = []"
  by (cases s rule: rev_cases) (auto simp: last_path_segment_def)

text \<open>
  \<open>last_path_segment\<close> is a suffix without separator, and what stands before it is
  empty or ends with the separator.
\<close>

lemma last_path_segment_decomp:
  "\<exists>pre. s = pre @ last_path_segment s \<and> (pre = [] \<or> last pre = CHR ''/'')
     \<and> CHR ''/'' \<notin> set (last_path_segment s)"
proof -
  let ?P = "\<lambda>c. c \<noteq> CHR ''/''"
  let ?pre = "rev (dropWhile ?P (rev s))"
  have "?pre @ last_path_segment s = rev (takeWhile ?P (rev s) @ dropWhile ?P (rev s))"
    unfolding last_path_segment_def by (simp only: rev_append)
  also have "\<dots> = s"
    by simp
  finally have a: "s = ?pre @ last_path_segment s"
    by simp
  have b: "?pre = [] \<or> last ?pre = CHR ''/''"
    using hd_dropWhile [of ?P "rev s"] by (auto simp: last_rev)
  have c: "CHR ''/'' \<notin> set (last_path_segment s)"
    unfolding last_path_segment_def by (auto dest: set_takeWhileD)
  from a b c show ?thesis
    by blast
qed


subsection \<open>The lines before the \<open>try\<close>\<close>

lemma get_obj: "get (JObj kvs) k = Inr (dict_get kvs k)"
  by (simp add: get_def)

lemma get_not_obj:
  "\<forall>kvs. d \<noteq> JObj kvs \<Longrightarrow>
     get d k = Inl (Exn AttributeError
       (CHR 0x27 # type_name d @ CHR 0x27 # '' object has no attribute 'get'' @ [CHR 0x27]))"
  by (cases d) (simp_all add: get_def)

lemma build_result_obj:
  "data ev = JObj kvs \<Longrightarrow>
     build_result ev =
       Inr \<lparr>blob_name = last_path_segment (subject ev),
            blob_url = dict_get kvs ''url'',
            relay_dict = relay_fields ev (last_path_segment (subject ev))
              (dict_get kvs ''url'') (dict_get kvs ''blobType'')
              (dict_get kvs ''contentType'') (dict_get kvs ''contentLength''),
            result = dumps (JObj (relay_fields ev (last_path_segment (subject ev))
              (dict_get kvs ''url'') (dict_get kvs ''blobType'')
              (dict_get kvs ''contentType'') (dict_get kvs ''contentLength'')))\<rparr>"
  by (simp add: build_result_def get_json_def blob_name_total get_obj Let_def)

lemma build_result_not_obj:
  "\<forall>kvs. data ev \<noteq> JObj kvs \<Longrightarrow>
     build_result ev = Inl (Exn AttributeError
       (CHR 0x27 # type_name (data ev) @ CHR 0x27 # '' object has no attribute 'get'' @ [CHR 0x27]))"
  by (simp add: build_result_def get_json_def blob_name_total get_not_obj Let_def)

lemma build_result_cases:
  "(\<exists>kvs p. data ev = JObj kvs \<and> build_result ev = Inr p) \<or>
   ((\<forall>kvs. data ev \<noteq> JObj kvs) \<and> (\<exists>e. build_result ev = Inl e))"
  using build_result_obj [of ev] build_result_not_obj [of ev] by blast

subsection \<open>The shape of an invocation\<close>

text \<open>The handler when the lines before the \<open>try\<close> raise.\<close>

lemma handler_build_raises:
  "build_result ev = Inl e \<Longrightarrow> file_drop_trigger w ev = ([], Inl e)"
  by (simp add: file_drop_trigger_def)

text \<open>What the \<open>except\<close> clauses leave pending, and what they do.\<close>

lemma pending_except_clauses:
  "snd (except_clauses p exc) = (if is_Exception exc then None else Some exc)"
  by (cases exc) (simp add: except_clauses_def derives_from_Exception_def)

lemma messages_except_clauses: "messages (fst (except_clauses p exc)) = []"
  by (cases exc) (simp add: except_clauses_def messages_def)

lemma lease_held_except_clauses:
  "lease_held h (fst (except_clauses p exc) @ xs) = lease_held h xs"
  by (cases exc) (simp add: except_clauses_def)

lemma acquired_not_in_except_clauses: "LeaseAcquired \<notin> set (fst (except_clauses p exc))"
  by (cases exc) (simp add: except_clauses_def)

lemma except_clauses_eq:
  "except_clauses p exc = (h, pend) \<Longrightarrow>
     h = fst (except_clauses p exc) \<and> pend = (if is_Exception exc then None else Some exc)"
  using pending_except_clauses [of p exc] by simp

text \<open>The handler when the lines before the \<open>try\<close> return, by parts.\<close>

lemma handler_parts:
  "build_result ev = Inr p \<Longrightarrow>
     file_drop_trigger w ev =
       (fst (try_body w p)
          @ (case snd (snd (try_body w p)) of
               None \<Rightarrow> []
             | Some exc \<Rightarrow> fst (except_clauses p exc))
          @ fst (finally_clause w (fst (snd (try_body w p)))),
        case snd (finally_clause w (fst (snd (try_body w p)))) of
          Inl e \<Rightarrow> Inl e
        | Inr u \<Rightarrow> after_except (snd (snd (try_body w p))))"
proof -
  assume p: "build_result ev = Inr p"
  obtain effs lease raised where t: "try_body w p = (effs, lease, raised)"
    by (cases "try_body w p") auto
  obtain cleanup outcome where f: "finally_clause w lease = (cleanup, outcome)"
    by (cases "finally_clause w lease") auto
  show ?thesis
  proof (cases raised)
    case None
    with p t f show ?thesis
      by (simp add: file_drop_trigger_def after_except_def split: sum.splits)
  next
    case (Some exc)
    obtain h pend where e: "except_clauses p exc = (h, pend)"
      by (cases "except_clauses p exc") auto
    from except_clauses_eq [OF e] p t f Some e show ?thesis
      by (simp add: file_drop_trigger_def after_except_def split: sum.splits)
  qed
qed

text \<open>
  The handler when the lease is not acquired: the body of the \<open>try\<close> raised, the
  \<open>except\<close> clauses were tried, the cleanup had nothing to release.
\<close>

lemma try_body_not_acquired:
  "build_result ev = Inr p \<Longrightarrow> \<not> acquisition_succeeds w ev \<Longrightarrow>
     \<exists>exc. try_body w p = ([], None, Some exc)"
  by (auto simp: acquisition_succeeds_def try_body_def split: option.splits)

lemma handler_not_acquired:
  "build_result ev = Inr p \<Longrightarrow> \<not> acquisition_succeeds w ev \<Longrightarrow>
     \<exists>exc. raised_in_try w ev = Some exc
       \<and> file_drop_trigger w ev = (fst (except_clauses p exc), after_except (Some exc))"
proof -
  assume p: "build_result ev = Inr p" and n: "\<not> acquisition_succeeds w ev"
  from try_body_not_acquired [OF p n] obtain exc where t: "try_body w p = ([], None, Some exc)"
    by blast
  then show ?thesis
    by (simp add: handler_parts [OF p] raised_in_try_def p finally_clause_def)
qed

text \<open>The handler when the lease is acquired.\<close>

lemma try_body_acquired:
  "build_result ev = Inr p \<Longrightarrow> acquisition_succeeds w ev \<Longrightarrow>
     try_body w p =
       (case msg_set w (dumps (JStr (result p))) of
          None \<Rightarrow> ([LeaseAcquired, QueueSet (dumps (JStr (result p)))], Some BlobLeaseClient, None)
        | Some e \<Rightarrow> ([LeaseAcquired], Some BlobLeaseClient, Some e))"
  by (auto simp: acquisition_succeeds_def try_body_def Let_def split: option.splits)

lemma raised_in_try_acquired:
  "build_result ev = Inr p \<Longrightarrow> acquisition_succeeds w ev \<Longrightarrow>
     raised_in_try w ev = msg_set w (dumps (JStr (result p)))"
  by (simp add: raised_in_try_def try_body_acquired split: option.splits)

lemma handler_acquired:
  "build_result ev = Inr p \<Longrightarrow> acquisition_succeeds w ev \<Longrightarrow>
     file_drop_trigger w ev =
       ([LeaseAcquired]
          @ (case msg_set w (dumps (JStr (result p))) of
               None \<Rightarrow> [QueueSet (dumps (JStr (result p)))]
             | Some exc \<Rightarrow> fst (except_clauses p exc))
          @ (case release w of None \<Rightarrow> [LeaseReleased] | Some e \<Rightarrow> [ReleaseRaised e]),
        case release w of
          None \<Rightarrow> after_except (msg_set w (dumps (JStr (result p))))
        | Some e \<Rightarrow> Inl e)"
proof -
  assume p: "build_result ev = Inr p" and a: "acquisition_succeeds w ev"
  show ?thesis
    unfolding handler_parts [OF p] try_body_acquired [OF p a]
    by (cases "msg_set w (dumps (JStr (result p)))"; cases "release w")
       (simp_all add: finally_clause_def)
qed

lemma messages_any_world:
  "messages (fst (file_drop_trigger w ev)) = []
   \<or> messages (fst (file_drop_trigger w ev)) = [queue_text ev]"
proof (cases "build_result ev")
  case (Inl e)
  then show ?thesis
    by (simp add: handler_build_raises messages_def)
next
  case (Inr p)
  show ?thesis
  proof (cases "acquisition_succeeds w ev")
    case True
    show ?thesis
      unfolding handler_acquired [OF Inr True]
      by (cases "msg_set w (dumps (JStr (result p)))"; cases "release w")
         (simp_all add: messages_def messages_except_clauses [unfolded messages_def]
            queue_text_def Inr)
  next
    case False
    from handler_not_acquired [OF Inr False] show ?thesis
      by (auto simp: messages_except_clauses)
  qed
qed

lemma handler_emits:
  "acquisition_succeeds w ev \<Longrightarrow> msg_set w (queue_text ev) = None \<Longrightarrow>
     messages (fst (file_drop_trigger w ev)) = [queue_text ev]"
proof -
  assume a: "acquisition_succeeds w ev" and m: "msg_set w (queue_text ev) = None"
  from a obtain p where p: "build_result ev = Inr p"
    by (auto simp: acquisition_succeeds_def split: sum.splits)
  from m p have m': "msg_set w (dumps (JStr (result p))) = None"
    by (simp add: queue_text_def)
  show ?thesis
    unfolding handler_acquired [OF p a]
    using m' by (cases "release w") (simp_all add: messages_def queue_text_def p)
qed

text \<open>
  An exception raised in the \<open>try\<close> that does not derive from \<open>Exception\<close> reaches
  the caller when the cleanup returns.
\<close>

lemma uncaught_leaves_handler:
  "build_result ev = Inr p \<Longrightarrow> raised_in_try w ev = Some exc \<Longrightarrow> \<not> is_Exception exc \<Longrightarrow>
   (acquisition_succeeds w ev \<longrightarrow> release w = None) \<Longrightarrow>
     snd (file_drop_trigger w ev) = Inl exc"
proof (cases "acquisition_succeeds w ev")
  case True
  assume p: "build_result ev = Inr p" and r: "raised_in_try w ev = Some exc"
    and n: "\<not> is_Exception exc" and rel: "acquisition_succeeds w ev \<longrightarrow> release w = None"
  from r raised_in_try_acquired [OF p True]
  have "msg_set w (dumps (JStr (result p))) = Some exc" by simp
  with True rel n show ?thesis
    by (simp add: handler_acquired [OF p True] after_except_def)
next
  case False
  assume p: "build_result ev = Inr p" and r: "raised_in_try w ev = Some exc"
    and n: "\<not> is_Exception exc"
  from handler_not_acquired [OF p False] r n show ?thesis
    by (auto simp: after_except_def)
qed

lemma interrupted_example:
  "file_drop_trigger interrupted_world example_event = ([], Inl (Exn KeyboardInterrupt []))"
  by code_simp

lemma encode_content_length:
  "py_encode_basestring_ascii ''content_length'' = CHR 0x22 # ''content_length'' @ [CHR 0x22]"
  by code_simp

lemma infix_intro: "xs = a @ m @ b \<Longrightarrow> \<exists>pre post. xs = pre @ m @ post"
  by blast

lemma null_length_in_text:
  "\<exists>pre post. dumps (JObj (relay_fields ev bn bu bt ct JNull)) =
     pre @ (CHR 0x22 # ''content_length'' @ CHR 0x22 # '': null'') @ post"
proof (rule infix_intro)
  show "dumps (JObj (relay_fields ev bn bu bt ct JNull)) =
      (''{'' @ py_encode_basestring_ascii ''id'' @ '': '' @ dumps (JStr (event_id ev)) @ '', ''
         @ py_encode_basestring_ascii ''source'' @ '': '' @ dumps (JStr ''file'') @ '', ''
         @ py_encode_basestring_ascii ''blob_name'' @ '': '' @ dumps (JStr bn) @ '', ''
         @ py_encode_basestring_ascii ''blob_url'' @ '': '' @ dumps bu @ '', ''
         @ py_encode_basestring_ascii ''blob_type'' @ '': '' @ dumps bt @ '', ''
         @ py_encode_basestring_ascii ''content_type'' @ '': '' @ dumps ct @ '', '')
      @ (CHR 0x22 # ''content_length'' @ CHR 0x22 # '': null'')
      @ ('', '' @ py_encode_basestring_ascii ''topic'' @ '': '' @ dumps (JStr (topic ev)) @ '', ''
         @ py_encode_basestring_ascii ''subkect'' @ '': '' @ dumps (JStr (subject ev)) @ '', ''
         @ py_encode_basestring_ascii ''event_type'' @ '': '' @ dumps (JStr (event_type ev))
         @ ''}'')"
    by (simp add: relay_fields_def encode_content_length)
qed

section \<open>The claims\<close>

text \<open>
  C1, on the notification of the specification's example. The blob name is the last
  segment of the subject and one text is put in the queue output when every outside
  call returns. The dict that is serialised has the key \<open>subkect\<close> and no key
  \<open>subject\<close>, and the text handed to the queue is \<open>json.dumps\<close> of the string that
  \<open>json.dumps\<close> returned: it begins with a double quote, not with a brace. Run as
  the module stands, the name \<open>_\<close> is unbound and the invocation ends in the catch-all
  handler with no message.
\<close>

theorem C1_example_invocation:
  "build_result example_event =
     Inr \<lparr>blob_name = ''report-2024.csv'',
          blob_url = JStr ''https://acct.blob.core.windows.net/uploads/report-2024.csv'',
          relay_dict = example_fields,
          result = dumps (JObj example_fields)\<rparr>
   \<and> map fst example_fields =
       [''id'', ''source'', ''blob_name'', ''blob_url'', ''blob_type'', ''content_type'',
        ''content_length'', ''topic'', ''subkect'', ''event_type'']
   \<and> map_of example_fields ''subject'' = None
   \<and> file_drop_trigger ok_world example_event =
       ([LeaseAcquired, QueueSet (dumps (JStr (dumps (JObj example_fields)))), LeaseReleased],
        Inr ())
   \<and> take 8 (dumps (JStr (dumps (JObj example_fields)))) =
       [CHR 0x22, CHR ''{'', CHR 0x5C, CHR 0x22, CHR ''i'', CHR ''d'', CHR 0x5C, CHR 0x22]
   \<and> take 6 (dumps (JObj example_fields)) =
       [CHR ''{'', CHR 0x22, CHR ''i'', CHR ''d'', CHR 0x22, CHR '':'']
   \<and> file_drop_trigger shipped_world example_event =
       ([Log ERROR ''Unexpected error occurred: %s'' (JStr ''name '_' is not defined'')],
        Inr ())"
  by (intro conjI; code_simp)

text \<open>
  C2. When the lease is not acquired, for whatever reason (the lines before the \<open>try\<close>
  raise, the name \<open>_\<close> is unbound, the credential or the client cannot be built,
  \<open>acquire_lease\<close> raises), the invocation puts no text in the queue output,
  obtains no lease and holds none when it ends. Read the other way: a message is produced
  only if the lease was acquired.
\<close>

theorem C2_no_message_without_lease:
  "\<not> acquisition_succeeds w ev \<Longrightarrow>
     messages (fst (file_drop_trigger w ev)) = []
     \<and> LeaseAcquired \<notin> set (fst (file_drop_trigger w ev))
     \<and> \<not> lease_held False (fst (file_drop_trigger w ev))"
proof (cases "build_result ev")
  case (Inl e)
  then show ?thesis
    by (simp add: handler_build_raises messages_def)
next
  case (Inr p)
  assume "\<not> acquisition_succeeds w ev"
  with Inr obtain exc where
    "file_drop_trigger w ev = (fst (except_clauses p exc), after_except (Some exc))"
    using handler_not_acquired by blast
  then show ?thesis
    using lease_held_except_clauses [of False p exc "[]"]
    by (simp add: messages_except_clauses acquired_not_in_except_clauses)
qed

text \<open>C2 at a lease conflict.\<close>

theorem C2_no_message_without_lease_witness:
  "\<not> acquisition_succeeds conflict_world example_event
   \<and> messages (fst (file_drop_trigger conflict_world example_event)) = []
   \<and> LeaseAcquired \<notin> set (fst (file_drop_trigger conflict_world example_event))
   \<and> \<not> lease_held False (fst (file_drop_trigger conflict_world example_event))"
proof -
  have h: "\<not> acquisition_succeeds conflict_world example_event"
    by code_simp
  from h C2_no_message_without_lease [OF h] show ?thesis
    by simp
qed

text \<open>
  C3 fails as stated: a notification whose data is \<open>null\<close> makes \<open>event_data.get\<close>
  on line 48 raise \<open>AttributeError\<close>, before the \<open>try\<close> is entered, and the
  exception reaches the caller.
\<close>

theorem C3_null_payload_raises:
  "file_drop_trigger ok_world null_data_event =
     ([], Inl (Exn AttributeError
        (CHR 0x27 # ''NoneType'' @ CHR 0x27 # '' object has no attribute 'get'' @ [CHR 0x27])))"
  by code_simp

text \<open>
  C3, amended. Every exception deriving from \<open>Exception\<close> that is raised inside the
  \<open>try\<close> (by reading \<open>_\<close>, building the credential or the client, acquiring the
  lease, writing the queue output) is caught inside the handler: one logging call is
  made, no message is emitted and the handler returns normally, provided the release
  call of the cleanup, when it is made, does not raise.
\<close>

theorem C3_guarded_failures_caught:
  "raised_in_try w ev = Some exc \<Longrightarrow> is_Exception exc \<Longrightarrow>
   (acquisition_succeeds w ev \<longrightarrow> release w = None) \<Longrightarrow>
     snd (file_drop_trigger w ev) = Inr ()
     \<and> messages (fst (file_drop_trigger w ev)) = []
     \<and> (\<exists>lvl fmt arg. Log lvl fmt arg \<in> set (fst (file_drop_trigger w ev)))"
proof -
  assume r: "raised_in_try w ev = Some exc" and i: "is_Exception exc"
    and rel: "acquisition_succeeds w ev \<longrightarrow> release w = None"
  from r obtain p where p: "build_result ev = Inr p"
    by (auto simp: raised_in_try_def split: sum.splits)
  have l: "\<exists>lvl fmt arg. fst (except_clauses p exc) = [Log lvl fmt arg]"
    using i by (cases exc) (simp add: except_clauses_def)
  show ?thesis
  proof (cases "acquisition_succeeds w ev")
    case True
    with rel have n: "release w = None" by simp
    from r raised_in_try_acquired [OF p True]
    have m: "msg_set w (dumps (JStr (result p))) = Some exc" by simp
    from l obtain lvl fmt arg where "fst (except_clauses p exc) = [Log lvl fmt arg]"
      by blast
    then show ?thesis
      unfolding handler_acquired [OF p True]
      using i m by (simp add: n after_except_def messages_def)
  next
    case False
    from handler_not_acquired [OF p False] r
    have h: "file_drop_trigger w ev = (fst (except_clauses p exc), after_except (Some exc))"
      by auto
    from l obtain lvl fmt arg where "fst (except_clauses p exc) = [Log lvl fmt arg]"
      by blast
    then show ?thesis
      unfolding h using i by (simp add: after_except_def messages_def)
  qed
qed

text \<open>C3, amended, at a network failure during lease acquisition.\<close>

theorem C3_guarded_failures_caught_witness:
  "raised_in_try unreachable_world example_event
     = Some (Exn HttpResponseError ''connection reset'')
   \<and> is_Exception (Exn HttpResponseError ''connection reset'')
   \<and> \<not> acquisition_succeeds unreachable_world example_event
   \<and> snd (file_drop_trigger unreachable_world example_event) = Inr ()
   \<and> messages (fst (file_drop_trigger unreachable_world example_event)) = []"
proof -
  have r: "raised_in_try unreachable_world example_event
             = Some (Exn HttpResponseError ''connection reset'')"
    by code_simp
  have i: "is_Exception (Exn HttpResponseError ''connection reset'')"
    by code_simp
  have n: "\<not> acquisition_succeeds unreachable_world example_event"
    by code_simp
  then have rel: "acquisition_succeeds unreachable_world example_event
             \<longrightarrow> release unreachable_world = None"
    by simp
  from r i n C3_guarded_failures_caught [OF r i rel] show ?thesis
    by blast
qed

text \<open>
  C4. When \<open>acquire_lease\<close> raises the conflict error or the not-found error, no
  text is put in the queue output and the handler returns normally; all it does is one
  logging call, at level \<open>INFO\<close> for the conflict and \<open>ERROR\<close> for the missing blob.
\<close>

theorem C4_conflict_or_missing:
  "acquisition_raises w ev (Exn c m) \<Longrightarrow>
   c = ResourceExistsError \<or> c = ResourceNotFoundError \<Longrightarrow>
     messages (fst (file_drop_trigger w ev)) = []
     \<and> snd (file_drop_trigger w ev) = Inr ()
     \<and> (\<exists>fmt arg. fst (file_drop_trigger w ev) =
           [Log (if c = ResourceExistsError then INFO else ERROR) fmt arg])"
proof -
  assume a: "acquisition_raises w ev (Exn c m)"
    and c: "c = ResourceExistsError \<or> c = ResourceNotFoundError"
  from a obtain p where p: "build_result ev = Inr p"
    by (auto simp: acquisition_raises_def split: sum.splits)
  from a p have t: "try_body w p = ([], None, Some (Exn c m))"
    by (simp add: acquisition_raises_def try_body_def)
  from c show ?thesis
    unfolding handler_parts [OF p] t
    by (auto simp: finally_clause_def except_clauses_def after_except_def
          derives_from_Exception_def messages_def)
qed

text \<open>C4 at a lease conflict.\<close>

theorem C4_conflict_or_missing_witness:
  "acquisition_raises conflict_world example_event
       (Exn ResourceExistsError ''LeaseAlreadyPresent'')
   \<and> (ResourceExistsError = ResourceExistsError \<or> ResourceExistsError = ResourceNotFoundError)
   \<and> messages (fst (file_drop_trigger conflict_world example_event)) = []
   \<and> snd (file_drop_trigger conflict_world example_event) = Inr ()"
proof -
  have h: "acquisition_raises conflict_world example_event
             (Exn ResourceExistsError ''LeaseAlreadyPresent'')"
    by code_simp
  from h C4_conflict_or_missing [OF h] show ?thesis
    by simp
qed

text \<open>
  C5. Once \<open>acquire_lease\<close> has returned a lease, the release call is the last thing
  the invocation does, whatever happened to the queue output in between. If the call
  returns, the lease is no longer held, and the handler ends as the \<open>except\<close>
  clauses left it: a normal return, unless writing the queue output raised an exception
  that does not derive from \<open>Exception\<close>, which is raised again after the release.
  If the call raises, its exception is the outcome.
\<close>

theorem C5_release_on_every_path:
  "acquisition_succeeds w ev \<Longrightarrow>
     LeaseAcquired \<in> set (fst (file_drop_trigger w ev))
     \<and> (release w = None \<longrightarrow>
          last (fst (file_drop_trigger w ev)) = LeaseReleased
          \<and> \<not> lease_held False (fst (file_drop_trigger w ev))
          \<and> snd (file_drop_trigger w ev) = after_except (raised_in_try w ev))
     \<and> (\<forall>e. release w = Some e \<longrightarrow>
          last (fst (file_drop_trigger w ev)) = ReleaseRaised e
          \<and> snd (file_drop_trigger w ev) = Inl e)"
proof -
  assume a: "acquisition_succeeds w ev"
  then obtain p where p: "build_result ev = Inr p"
    by (auto simp: acquisition_succeeds_def split: sum.splits)
  show ?thesis
    unfolding handler_acquired [OF p a] raised_in_try_acquired [OF p a]
    by (auto simp: lease_held_except_clauses split: option.splits)
qed

text \<open>C5 on the path where writing the queue output raises after the lease was acquired.\<close>

theorem C5_release_on_every_path_witness:
  "acquisition_succeeds emission_fails_world example_event
   \<and> release emission_fails_world = None
   \<and> messages (fst (file_drop_trigger emission_fails_world example_event)) = []
   \<and> last (fst (file_drop_trigger emission_fails_world example_event)) = LeaseReleased
   \<and> \<not> lease_held False (fst (file_drop_trigger emission_fails_world example_event))
   \<and> snd (file_drop_trigger emission_fails_world example_event) = Inr ()"
proof -
  have a: "acquisition_succeeds emission_fails_world example_event"
    by code_simp
  have r: "release emission_fails_world = None"
    by code_simp
  have m: "messages (fst (file_drop_trigger emission_fails_world example_event)) = []"
    by code_simp
  have x: "after_except (raised_in_try emission_fails_world example_event) = Inr ()"
    by code_simp
  from a r m x C5_release_on_every_path [OF a] show ?thesis
    by simp
qed

text \<open>
  C6. When the payload object has no \<open>contentLength\<close>, the lines before the \<open>try\<close>
  return: \<open>get\<close> gives \<open>None\<close>, the dict holds \<open>content_length\<close> with the
  value \<open>null\<close>, and the serialised dict contains \<open>"content_length": null\<close>. The
  text for the queue is built from it, and it is the one message of the invocation
  whenever the lease is acquired and \<open>msg.set\<close> returns.
\<close>

theorem C6_missing_content_length:
  "data ev = JObj kvs \<Longrightarrow> map_of kvs ''contentLength'' = None \<Longrightarrow>
     (\<exists>p. build_result ev = Inr p
        \<and> map_of (relay_dict p) ''content_length'' = Some JNull
        \<and> result p = dumps (JObj (relay_dict p))
        \<and> (\<exists>pre post. result p =
               pre @ (CHR 0x22 # ''content_length'' @ CHR 0x22 # '': null'') @ post)
        \<and> queue_text ev = dumps (JStr (result p))
        \<and> (acquisition_succeeds w ev \<longrightarrow> msg_set w (queue_text ev) = None \<longrightarrow>
              messages (fst (file_drop_trigger w ev)) = [queue_text ev]))"
proof -
  assume d: "data ev = JObj kvs" and n: "map_of kvs ''contentLength'' = None"
  from n have l: "dict_get kvs ''contentLength'' = JNull"
    by (simp add: dict_get_def)
  show ?thesis
    unfolding build_result_obj [OF d] l queue_text_def
    using null_length_in_text handler_emits [of w ev]
    by (simp add: relay_fields_def queue_text_def build_result_obj [OF d] l)
qed

text \<open>C6 on the example notification without \<open>contentLength\<close>.\<close>

theorem C6_missing_content_length_witness:
  "data event_no_length = JObj (take 3 example_data)
   \<and> map_of (take 3 example_data) ''contentLength'' = None
   \<and> acquisition_succeeds ok_world event_no_length
   \<and> msg_set ok_world (queue_text event_no_length) = None
   \<and> messages (fst (file_drop_trigger ok_world event_no_length)) = [queue_text event_no_length]"
proof -
  have d: "data event_no_length = JObj (take 3 example_data)"
    by (simp add: event_no_length_def)
  have n: "map_of (take 3 example_data) ''contentLength'' = None"
    by code_simp
  have a: "acquisition_succeeds ok_world event_no_length"
    by code_simp
  have m: "msg_set ok_world (queue_text event_no_length) = None"
    by (simp add: ok_world_def)
  from d n a m C6_missing_content_length [OF d n, of ok_world] show ?thesis
    by blast
qed

text \<open>
  C7. For every notification whose data is an object, whatever fields it has or lacks,
  lines 46 to 62 return: the blob name, the blob URL, the dict and its serialisation
  are functions of the notification alone, and no branch raises.
\<close>

theorem C7_build_is_total:
  "data ev = JObj kvs \<Longrightarrow>
     (\<exists>p. build_result ev = Inr p
        \<and> blob_name p = last_path_segment (subject ev)
        \<and> blob_url p = dict_get kvs ''url''
        \<and> relay_dict p = relay_fields ev (blob_name p) (blob_url p) (dict_get kvs ''blobType'')
             (dict_get kvs ''contentType'') (dict_get kvs ''contentLength'')
        \<and> result p = dumps (JObj (relay_dict p)))"
  by (simp add: build_result_obj)

text \<open>C7 on a payload object with no field at all.\<close>

theorem C7_build_is_total_witness:
  "data empty_payload_event = JObj []
   \<and> (\<exists>p. build_result empty_payload_event = Inr p
         \<and> blob_url p = JNull
         \<and> result p = dumps (JObj (relay_dict p)))"
proof -
  have d: "data empty_payload_event = JObj []"
    by (simp add: empty_payload_event_def)
  from d C7_build_is_total [OF d] show ?thesis
    by (auto simp: dict_get_def)
qed

text \<open>
  C8. Two invocations on the same notification, in any two worlds, that both produce
  a message produce the same single message: \<open>queue_text\<close> of the notification, which
  does not depend on the world.
\<close>

theorem C8_same_notification_same_message:
  "messages (fst (file_drop_trigger w1 ev)) \<noteq> [] \<Longrightarrow>
   messages (fst (file_drop_trigger w2 ev)) \<noteq> [] \<Longrightarrow>
     messages (fst (file_drop_trigger w1 ev)) = [queue_text ev]
     \<and> messages (fst (file_drop_trigger w2 ev)) = [queue_text ev]"
  using messages_any_world [of w1 ev] messages_any_world [of w2 ev] by blast

text \<open>C8 on two runs that differ in what the release call does.\<close>

theorem C8_same_notification_same_message_witness:
  "messages (fst (file_drop_trigger ok_world example_event)) \<noteq> []
   \<and> messages (fst (file_drop_trigger release_fails_world example_event)) \<noteq> []
   \<and> messages (fst (file_drop_trigger ok_world example_event)) = [queue_text example_event]
   \<and> messages (fst (file_drop_trigger release_fails_world example_event))
       = [queue_text example_event]"
proof -
  have a: "messages (fst (file_drop_trigger ok_world example_event)) \<noteq> []"
    by code_simp
  have b: "messages (fst (file_drop_trigger release_fails_world example_event)) \<noteq> []"
    by code_simp
  from a b C8_same_notification_same_message [OF a b] show ?thesis
    by blast
qed

text \<open>
  C9. For every subject, \<open>split\<close> gives a non-empty list, so the index \<open>-1\<close> is in
  range and gives the last path segment. For a subject that is empty or ends with
  \<open>/\<close> the blob name is the empty string; the lines before the \<open>try\<close> still
  return, and the message is emitted when the lease is acquired and \<open>msg.set\<close>
  returns.
\<close>

theorem C9_blob_name_never_fails:
  "split (subject ev) CHR ''/'' \<noteq> []
   \<and> py_getitem (split (subject ev) CHR ''/'') (- 1) = Inr (last_path_segment (subject ev))
   \<and> (subject ev = [] \<or> last (subject ev) = CHR ''/'' \<longrightarrow>
        py_getitem (split (subject ev) CHR ''/'') (- 1) = Inr []
        \<and> (acquisition_succeeds w ev \<longrightarrow> msg_set w (queue_text ev) = None \<longrightarrow>
             (\<exists>p. build_result ev = Inr p \<and> blob_name p = []
                \<and> messages (fst (file_drop_trigger w ev)) = [queue_text ev])))"
proof (intro conjI impI)
  show "split (subject ev) CHR ''/'' \<noteq> []"
    by (simp add: split_def split_scan_nonempty)
  show "py_getitem (split (subject ev) CHR ''/'') (- 1) = Inr (last_path_segment (subject ev))"
    by (rule blob_name_total)
next
  assume e: "subject ev = [] \<or> last (subject ev) = CHR ''/''"
  then show "py_getitem (split (subject ev) CHR ''/'') (- 1) = Inr []"
    by (simp only: blob_name_total last_path_segment_empty [OF e])
next
  assume e: "subject ev = [] \<or> last (subject ev) = CHR ''/''"
    and a: "acquisition_succeeds w ev" and m: "msg_set w (queue_text ev) = None"
  from a obtain p where p: "build_result ev = Inr p"
    by (auto simp: acquisition_succeeds_def split: sum.splits)
  then obtain kvs where "data ev = JObj kvs"
    using build_result_cases [of ev] by auto
  with p have "blob_name p = last_path_segment (subject ev)"
    by (auto simp: build_result_obj)
  with e have "blob_name p = []"
    by (simp add: last_path_segment_empty)
  with p handler_emits [OF a m]
  show "\<exists>p. build_result ev = Inr p \<and> blob_name p = []
          \<and> messages (fst (file_drop_trigger w ev)) = [queue_text ev]"
    by blast
qed

text \<open>C9 on a subject that ends with the separator.\<close>

theorem C9_blob_name_never_fails_witness:
  "(subject folder_event = [] \<or> last (subject folder_event) = CHR ''/'')
   \<and> acquisition_succeeds ok_world folder_event
   \<and> msg_set ok_world (queue_text folder_event) = None
   \<and> py_getitem (split (subject folder_event) CHR ''/'') (- 1) = Inr []
   \<and> messages (fst (file_drop_trigger ok_world folder_event)) = [queue_text folder_event]"
proof -
  have e: "subject folder_event = [] \<or> last (subject folder_event) = CHR ''/''"
    by code_simp
  have a: "acquisition_succeeds ok_world folder_event"
    by code_simp
  have m: "msg_set ok_world (queue_text folder_event) = None"
    by (simp add: ok_world_def)
  from e a m C9_blob_name_never_fails [of folder_event ok_world] show ?thesis
    by blast
qed

text \<open>
  C10 fails as stated in its last part: a notification whose data is a list makes the
  handler end with \<open>AttributeError\<close> although the release call raises nothing (it is
  never made), so a raising release is not the only path on which the handler does not
  return normally.
\<close>

theorem C10_raises_without_release:
  "file_drop_trigger ok_world list_data_event =
     ([], Inl (Exn AttributeError
        (CHR 0x27 # ''list'' @ CHR 0x27 # '' object has no attribute 'get'' @ [CHR 0x27])))
   \<and> release ok_world = None"
  by (intro conjI; code_simp)

text \<open>
  C10, amended. When the release call of the cleanup raises, no handler of the function
  catches the exception: it is the last effect of the invocation and it reaches the
  caller.
\<close>

theorem C10_release_exception_propagates:
  "acquisition_succeeds w ev \<Longrightarrow> release w = Some e \<Longrightarrow>
     snd (file_drop_trigger w ev) = Inl e
     \<and> last (fst (file_drop_trigger w ev)) = ReleaseRaised e"
proof -
  assume a: "acquisition_succeeds w ev" and r: "release w = Some e"
  from a obtain p where p: "build_result ev = Inr p"
    by (auto simp: acquisition_succeeds_def split: sum.splits)
  show ?thesis
    unfolding handler_acquired [OF p a] by (simp add: r)
qed

text \<open>C10, amended, on a run where the release call raises.\<close>

theorem C10_release_exception_propagates_witness:
  "acquisition_succeeds release_fails_world example_event
   \<and> release release_fails_world = Some (Exn HttpResponseError ''LeaseIdMismatch'')
   \<and> snd (file_drop_trigger release_fails_world example_event)
       = Inl (Exn HttpResponseError ''LeaseIdMismatch'')"
proof -
  have a: "acquisition_succeeds release_fails_world example_event"
    by code_simp
  have r: "release release_fails_world = Some (Exn HttpResponseError ''LeaseIdMismatch'')"
    by code_simp
  from a r C10_release_exception_propagates [OF a r] show ?thesis
    by blast
qed

end
